theory Spec2Isabelle
  imports Main "HOL-Library.Multiset"
begin

section \<open>Time values\<close>

text \<open>
  A naive \<^verbatim>\<open>datetime\<close> is the number of microseconds since midnight of the first
  day of the calendar, a \<^verbatim>\<open>timedelta\<close> a number of microseconds. Python orders and
  subtracts naive datetimes by exactly this number. A timezone-aware datetime is compared
  by the instant it denotes (microseconds in UTC), whatever zone it is written in.
  The range of \<^verbatim>\<open>datetime\<close> (years 1 to 9999) is not modelled; the difference of two
  datetimes of that range is always a \<^verbatim>\<open>timedelta\<close> that Python can build.
\<close>

type_synonym datetime = int
type_synonym timedelta = int
type_synonym instant = int

datatype py_error =
  KeyError | TypeError | ValidationError | EntityNotFoundException | OverflowError

definition timedelta :: "int \<Rightarrow> int \<Rightarrow> int \<Rightarrow> py_error + timedelta" where
  \<comment> \<open>\<^verbatim>\<open>dt.timedelta(days=d, hours=h, minutes=m)\<close>: the constructor raises
      \<^verbatim>\<open>OverflowError\<close> unless the whole days of the sum are between -999999999 and
      999999999.\<close>
  "timedelta d h m =
     (let microseconds = d * 86400000000 + h * 3600000000 + m * 60000000 in
      if - 999999999 \<le> microseconds div 86400000000
         \<and> microseconds div 86400000000 \<le> 999999999
      then Inr microseconds
      else Inl OverflowError)"

definition at_day :: "int \<Rightarrow> int \<Rightarrow> int \<Rightarrow> datetime" where
  \<comment> \<open>the naive datetime of hour \<open>h\<close>, minute \<open>m\<close> on the day that is \<open>d\<close> days after the
      first day of the calendar\<close>
  "at_day d h m = d * 86400000000 + h * 3600000000 + m * 60000000"

definition datetime_time :: "datetime \<Rightarrow> int" where
  \<comment> \<open>\<^verbatim>\<open>d.time()\<close>: the time of day, in microseconds since midnight\<close>
  "datetime_time d = d mod 86400000000"

definition strptime_time :: "int \<Rightarrow> int \<Rightarrow> int \<Rightarrow> int" where
  \<comment> \<open>\<^verbatim>\<open>dt.datetime.strptime('HH:MM:SS', '%H:%M:%S').time()\<close>\<close>
  "strptime_time h m s = h * 3600000000 + m * 60000000 + s * 1000000"

text \<open>
  The two conversions from a naive datetime to an instant that the code uses belong to
  pytz and to the host's settings; they are parameters of the model.
  \<^verbatim>\<open>prague.localize(d)\<close> reads \<^verbatim>\<open>d\<close> as Prague wall-clock time;
  \<^verbatim>\<open>d.astimezone(tz)\<close> on a naive \<^verbatim>\<open>d\<close> reads it in the local zone of the host.
\<close>

record timezones =
  prague_localize :: "datetime \<Rightarrow> instant"
  astimezone :: "datetime \<Rightarrow> instant"


section \<open>Data model\<close>

text \<open>\<^verbatim>\<open>schemas/calendar.py\<close>, class \<^verbatim>\<open>Rules\<close>.\<close>

record Rules =
  night_time :: bool
  reservation_without_permission :: bool
  max_reservation_hours :: int
  in_advance_hours :: int
  in_advance_minutes :: int
  in_prior_days :: int

definition mk_Rules :: "bool \<Rightarrow> bool \<Rightarrow> int \<Rightarrow> int \<Rightarrow> int \<Rightarrow> int \<Rightarrow> py_error + Rules" where
  \<comment> \<open>The constructor \<^verbatim>\<open>Rules(...)\<close>: every numeric field is declared \<^verbatim>\<open>Field(ge=0)\<close>,
      which pydantic checks when the object is built.\<close>
  "mk_Rules nt rwp mrh iah iam ipd =
     (if \<not> (mrh \<ge> 0) then Inl ValidationError
      else if \<not> (iah \<ge> 0) then Inl ValidationError
      else if \<not> (iam \<ge> 0) then Inl ValidationError
      else if \<not> (ipd \<ge> 0) then Inl ValidationError
      else Inr \<lparr> night_time = nt, reservation_without_permission = rwp,
                 max_reservation_hours = mrh, in_advance_hours = iah,
                 in_advance_minutes = iam, in_prior_days = ipd \<rparr>)"

text \<open>\<^verbatim>\<open>models/calendar.py\<close>, class \<^verbatim>\<open>Calendar\<close> (the fields the booking flow reads).\<close>

record Calendar =
  cal_id :: string
  reservation_type :: string
  max_people :: int
  more_than_max_people_with_permission :: bool
  collision_with_itself :: bool
  collision_with_calendar :: "string list"
  club_member_rules :: Rules
  active_member_rules :: Rules
  manager_rules :: Rules

text \<open>\<^verbatim>\<open>schemas/data_is.py\<close>: a user's services as the information system reports them.\<close>

record Service =
  svc_alias :: string

record ServiceValidity =
  service :: Service

record ReservationService =
  rs_alias :: string
  rs_name :: string

text \<open>\<^verbatim>\<open>schemas/user.py\<close>: \<^verbatim>\<open>roles: list[str] | None\<close>.\<close>

record User =
  active_member :: bool
  roles :: "string list option"

text \<open>\<^verbatim>\<open>schemas/event.py\<close>, class \<^verbatim>\<open>EventCreate\<close>; both datetimes are naive.\<close>

record EventCreate =
  start_datetime :: datetime
  end_datetime :: datetime
  guests :: int
  ec_reservation_type :: string

datatype EventState = NOT_APPROVED | UPDATE_REQUESTED | CONFIRMED | CANCELED

text \<open>
  An event as the external calendar returns it. \<^verbatim>\<open>event['start']['dateTime']\<close> is
  missing for an all-day event, where the lookup raises \<^verbatim>\<open>KeyError\<close>.
\<close>

record event =
  start_dateTime :: "instant option"
  end_dateTime :: "instant option"

text \<open>
  The external calendar: \<^verbatim>\<open>service.events().list(calendarId, timeMin, timeMax, ...).execute()\<close>
  and then \<^verbatim>\<open>.get('items', [])\<close>. A call that fails in the library is outside the model.
\<close>

type_synonym google_calendar_service = "string \<Rightarrow> instant \<Rightarrow> instant \<Rightarrow> event list"

text \<open>The messages the checks answer with, one constructor for each text in the source.\<close>

datatype message =
    NoService string
      \<comment> \<open>\<^verbatim>\<open>You don't have {alias} service!\<close>\<close>
  | BeforePresent
      \<comment> \<open>\<^verbatim>\<open>You can't make a reservation before the present time!\<close>\<close>
  | EndBeforeBeginning
      \<comment> \<open>\<^verbatim>\<open>The end of a reservation cannot be before its beginning!\<close>\<close>
  | MoreThanPeople int
      \<comment> \<open>\<^verbatim>\<open>You can't reserve this type of reservation for more than {max_people} people!\<close>\<close>
  | DifferentDay
      \<comment> \<open>\<^verbatim>\<open>You can reserve on different day.\<close>\<close>
  | InAdvance int int
      \<comment> \<open>\<^verbatim>\<open>You have to make reservations {hours} hours and {minutes} minutes in advance!\<close>\<close>
  | EarlierThanPrior int
      \<comment> \<open>\<^verbatim>\<open>You can't make reservations earlier than {days} days in advance!\<close>\<close>
  | CalendarNotExist
      \<comment> \<open>\<^verbatim>\<open>Calendar with that type not exist!\<close>\<close>

datatype outcome = Access | Message message


section \<open>\<^verbatim>\<open>services/utils.py\<close>\<close>

fun service_availability_check :: "ServiceValidity list \<Rightarrow> string \<Rightarrow> bool" where
  "service_availability_check [] service_alias = False"
| "service_availability_check (s # ss) service_alias =
     (if svc_alias (service s) = service_alias then True
      else service_availability_check ss service_alias)"

text \<open>
  Every \<^verbatim>\<open>dt.datetime.now()\<close> is a reading of the clock; a function takes one
  argument for each reading it makes, in the order of the readings.
\<close>

definition first_standard_check ::
  "datetime \<Rightarrow> ServiceValidity list \<Rightarrow> ReservationService \<Rightarrow> datetime \<Rightarrow> datetime \<Rightarrow> outcome" where
  "first_standard_check now services reservation_service start_time end_time =
     (if \<not> service_availability_check services (rs_alias reservation_service)
      then Message (NoService (rs_alias reservation_service))
      else if start_time < now then Message BeforePresent
      else if end_time < start_time then Message EndBeforeBeginning
      else Access)"

text \<open>
  The three functions below build a \<^verbatim>\<open>timedelta\<close> from a number of the rules, which
  \<^verbatim>\<open>Rules\<close> bounds from below only: where the constructor raises, they raise.
\<close>

definition control_res_in_advance_or_prior ::
  "datetime \<Rightarrow> datetime \<Rightarrow> Rules \<Rightarrow> bool \<Rightarrow> py_error + bool" where
  "control_res_in_advance_or_prior current_time start_time user_rules in_advance =
     (let time_difference = \<bar>start_time - current_time\<bar> in
      if in_advance then
        (case timedelta 0 (in_advance_hours user_rules) (in_advance_minutes user_rules) of
           Inl e \<Rightarrow> Inl e
         | Inr limit \<Rightarrow> if time_difference < limit then Inr False else Inr True)
      else
        (case timedelta (in_prior_days user_rules) 0 0 of
           Inl e \<Rightarrow> Inl e
         | Inr limit \<Rightarrow> if time_difference > limit then Inr False else Inr True))"

definition reservation_in_advance ::
  "datetime \<Rightarrow> datetime \<Rightarrow> datetime \<Rightarrow> Rules \<Rightarrow> py_error + outcome" where
  "reservation_in_advance now1 now2 start_time user_rules =
     (case control_res_in_advance_or_prior now1 start_time user_rules True of
        Inl e \<Rightarrow> Inl e
      | Inr in_time \<Rightarrow>
          if \<not> in_time
          then Inr (Message (InAdvance (in_advance_hours user_rules) (in_advance_minutes user_rules)))
          else (case control_res_in_advance_or_prior now2 start_time user_rules False of
                  Inl e \<Rightarrow> Inl e
                | Inr in_window \<Rightarrow>
                    if \<not> in_window
                    then Inr (Message (EarlierThanPrior (in_prior_days user_rules)))
                    else Inr Access))"

definition dif_days_res :: "datetime \<Rightarrow> datetime \<Rightarrow> Rules \<Rightarrow> py_error + bool" where
  "dif_days_res start_dt end_dt user_rules =
     (let time_difference = \<bar>end_dt - start_dt\<bar> in
      case timedelta 0 (max_reservation_hours user_rules) 0 of
        Inl e \<Rightarrow> Inl e
      | Inr limit \<Rightarrow> if time_difference > limit then Inr False else Inr True)"


section \<open>\<^verbatim>\<open>services/event_services.py\<close>\<close>

text \<open>
  The reservation service of the calendar is read from the database by the caller and is
  an argument here. \<^verbatim>\<open>alias in user.roles\<close> raises \<^verbatim>\<open>TypeError\<close> when the
  roles are \<^verbatim>\<open>None\<close>.
\<close>

definition choose_user_rules :: "User \<Rightarrow> Calendar \<Rightarrow> ReservationService \<Rightarrow> py_error + Rules" where
  "choose_user_rules user calendar reservation_service =
     (if \<not> active_member user then Inr (club_member_rules calendar)
      else case roles user of
             None \<Rightarrow> Inl TypeError
           | Some rs \<Rightarrow>
               if rs_alias reservation_service \<in> set rs then Inr (manager_rules calendar)
               else Inr (active_member_rules calendar))"

definition control_conditions_and_permissions ::
  "datetime \<Rightarrow> datetime \<Rightarrow> datetime \<Rightarrow> User \<Rightarrow> ServiceValidity list \<Rightarrow> EventCreate \<Rightarrow> Calendar
     \<Rightarrow> ReservationService \<Rightarrow> py_error + outcome" where
  "control_conditions_and_permissions now0 now1 now2 user services event_input calendar reservation_service =
     (let standard_message = first_standard_check now0 services reservation_service
                               (start_datetime event_input) (end_datetime event_input) in
      if \<not> (standard_message = Access) then Inr standard_message
      else if \<not> more_than_max_people_with_permission calendar
              \<and> guests event_input > max_people calendar
      then Inr (Message (MoreThanPeople (max_people calendar)))
      else case choose_user_rules user calendar reservation_service of
             Inl e \<Rightarrow> Inl e
           | Inr user_rules \<Rightarrow>
               (case dif_days_res (start_datetime event_input) (end_datetime event_input)
                       user_rules of
                  Inl e \<Rightarrow> Inl e
                | Inr short \<Rightarrow>
                    if \<not> short then Inr (Message DifferentDay)
                    else (case reservation_in_advance now1 now2 (start_datetime event_input)
                                 user_rules of
                            Inl e \<Rightarrow> Inl e
                          | Inr message \<Rightarrow>
                              if \<not> (message = Access) then Inr message
                              else Inr Access)))"

text \<open>The body of the event for the external calendar (\<^verbatim>\<open>ready_event\<close>), without its texts.\<close>

record event_body =
  summary :: string
  body_start :: instant
  body_end :: instant

definition ready_event :: "timezones \<Rightarrow> Calendar \<Rightarrow> EventCreate \<Rightarrow> event_body" where
  "ready_event tz calendar event_input =
     \<lparr> summary = reservation_type calendar,
       body_start = prague_localize tz (start_datetime event_input),
       body_end = prague_localize tz (end_datetime event_input) \<rparr>"

datatype post_result = MessageDict message | EventBody event_body

definition post_event ::
  "timezones \<Rightarrow> datetime \<Rightarrow> datetime \<Rightarrow> datetime \<Rightarrow> EventCreate \<Rightarrow> ServiceValidity list \<Rightarrow> User
     \<Rightarrow> Calendar option \<Rightarrow> ReservationService \<Rightarrow> py_error + post_result" where
  "post_event tz now0 now1 now2 event_input services user calendar_opt reservation_service =
     (case calendar_opt of
        None \<Rightarrow> Inr (MessageDict CalendarNotExist)
      | Some calendar \<Rightarrow>
          (case control_conditions_and_permissions now0 now1 now2 user services event_input
                  calendar reservation_service of
             Inl e \<Rightarrow> Inl e
           | Inr (Message m) \<Rightarrow> Inr (MessageDict m)
           | Inr Access \<Rightarrow> Inr (EventBody (ready_event tz calendar event_input))))"


section \<open>\<^verbatim>\<open>api/utils.py\<close>\<close>

definition get_events ::
  "timezones \<Rightarrow> google_calendar_service \<Rightarrow> datetime \<Rightarrow> datetime \<Rightarrow> string \<Rightarrow> event list" where
  "get_events tz svc start_time end_time calendar_id =
     svc calendar_id (prague_localize tz start_time) (prague_localize tz end_time)"

text \<open>
  \<^verbatim>\<open>check_collision_time\<close> answers \<^verbatim>\<open>True\<close> when the time is free and
  \<^verbatim>\<open>False\<close> when there is a conflict.
\<close>

definition check_collision_time ::
  "timezones \<Rightarrow> event list \<Rightarrow> datetime \<Rightarrow> datetime \<Rightarrow> Calendar \<Rightarrow> google_calendar_service
     \<Rightarrow> py_error + bool" where
  "check_collision_time tz check_collision start_dt end_dt calendar svc =
     (if \<not> collision_with_itself calendar
         \<and> int (length (get_events tz svc start_dt end_dt (cal_id calendar))) > max_people calendar
      then Inr False
      else if length check_collision = 0 then Inr True
      else if length check_collision > 1 then Inr False
      else case start_dateTime (hd check_collision) of
             None \<Rightarrow> Inl KeyError
           | Some start_date_event \<Rightarrow>
               (case end_dateTime (hd check_collision) of
                  None \<Rightarrow> Inl KeyError
                | Some end_date_event \<Rightarrow>
                    if end_date_event = astimezone tz start_dt
                       \<or> start_date_event = astimezone tz end_dt
                    then Inr True
                    else Inr False))"

text \<open>
  \<^verbatim>\<open>control_collision\<close>: \<^verbatim>\<open>collisions\<close> is the calendar's own list, not a copy, so
  the \<^verbatim>\<open>append\<close> changes the calendar object. The function therefore returns its answer
  (or the exception) together with the calendar as it is after the call.
\<close>

fun control_collision ::
  "timezones \<Rightarrow> google_calendar_service \<Rightarrow> EventCreate \<Rightarrow> Calendar option
     \<Rightarrow> (py_error + bool) \<times> Calendar option" where
  "control_collision tz svc event_input None = (Inr False, None)"
| "control_collision tz svc event_input (Some calendar) =
     (let collisions = collision_with_calendar calendar @ [cal_id calendar];
          calendar' = calendar\<lparr>collision_with_calendar := collisions\<rparr>;
          check_collision =
            (if collision_with_calendar calendar' \<noteq> []
             then concat (map (get_events tz svc (start_datetime event_input)
                                 (end_datetime event_input)) collisions)
             else [])
      in (case check_collision_time tz check_collision (start_datetime event_input)
                 (end_datetime event_input) calendar' svc of
            Inl e \<Rightarrow> Inl e
          | Inr free \<Rightarrow> if \<not> free then Inr False else Inr True,
          Some calendar'))"

definition check_night_reservation :: "User \<Rightarrow> bool" where
  "check_night_reservation user = (if \<not> active_member user then False else True)"

definition control_available_reservation_time :: "datetime \<Rightarrow> datetime \<Rightarrow> bool" where
  "control_available_reservation_time start_dt end_dt =
     (let start_time = datetime_time start_dt;
          end_time = datetime_time end_dt;
          start_res_time = strptime_time 8 0 0;
          end_res_time = strptime_time 22 0 0
      in if start_time < start_res_time \<or> end_time < start_res_time \<or> end_time > end_res_time
         then False else True)"


section \<open>\<^verbatim>\<open>api/events.py\<close>\<close>

text \<open>
  \<^verbatim>\<open>create_event\<close> from the lookup of the calendar on. The answer is the response
  together with the state of the event written to the database, if one is written.
  The branch for an empty \<^verbatim>\<open>event_body\<close> is not reachable, since \<^verbatim>\<open>post_event\<close>
  gets a calendar: it is left out. \<^verbatim>\<open>control_collision\<close> changes only the collision
  list of the calendar, so \<^verbatim>\<open>calendar.max_people\<close> after it is the value before it.
  Inserting into the external calendar, writing to the
  database and sending mail are calls to collaborators and are not modelled further.
\<close>

datatype response =
    AlreadyReservation
      \<comment> \<open>\<^verbatim>\<open>There's already a reservation for that time.\<close>\<close>
  | MessageContent message
      \<comment> \<open>the message of \<^verbatim>\<open>post_event\<close>\<close>
  | MoreThanMaxPeople int
      \<comment> \<open>\<^verbatim>\<open>more than {max_people} people\<close>\<close>
  | NightTime
      \<comment> \<open>\<^verbatim>\<open>Night time\<close>\<close>
  | EventInserted
      \<comment> \<open>the inserted event of the external calendar\<close>

definition create_event ::
  "timezones \<Rightarrow> google_calendar_service \<Rightarrow> datetime \<Rightarrow> datetime \<Rightarrow> datetime \<Rightarrow> User
     \<Rightarrow> ServiceValidity list \<Rightarrow> EventCreate \<Rightarrow> Calendar option \<Rightarrow> ReservationService
     \<Rightarrow> py_error + response \<times> EventState option" where
  "create_event tz svc now0 now1 now2 user services event_create calendar_opt reservation_service =
     (case calendar_opt of
        None \<Rightarrow> Inl EntityNotFoundException
      | Some calendar0 \<Rightarrow>
          (case control_collision tz svc event_create (Some calendar0) of
             (Inl e, _) \<Rightarrow> Inl e
           | (Inr False, _) \<Rightarrow> Inr (AlreadyReservation, None)
           | (Inr True, calendar_opt') \<Rightarrow>
               (case post_event tz now0 now1 now2 event_create services user calendar_opt'
                       reservation_service of
                  Inl e \<Rightarrow> Inl e
                | Inr (MessageDict m) \<Rightarrow> Inr (MessageContent m, None)
                | Inr (EventBody body) \<Rightarrow>
                    if guests event_create > max_people calendar0
                    then Inr (MoreThanMaxPeople (max_people calendar0), Some NOT_APPROVED)
                    else if \<not> check_night_reservation user
                            \<and> \<not> control_available_reservation_time
                                  (start_datetime event_create) (end_datetime event_create)
                    then Inr (NightTime, Some NOT_APPROVED)
                    else Inr (EventInserted, Some CONFIRMED))))"


section \<open>The collision check without the check of the calendar's own events\<close>

text \<open>
  The list \<^verbatim>\<open>check_collision\<close> that \<^verbatim>\<open>control_collision\<close> builds: the events of
  every calendar in the collision list, the calendar itself being the last one.
\<close>

definition gathered ::
  "timezones \<Rightarrow> google_calendar_service \<Rightarrow> EventCreate \<Rightarrow> Calendar \<Rightarrow> event list" where
  "gathered tz svc event_input calendar =
     concat (map (get_events tz svc (start_datetime event_input) (end_datetime event_input))
               (collision_with_calendar calendar @ [cal_id calendar]))"

text \<open>
  For comparison only: \<^verbatim>\<open>check_collision_time\<close> and \<^verbatim>\<open>control_collision\<close> with the
  first statement of \<^verbatim>\<open>check_collision_time\<close> (the count of the calendar's own events
  against \<^verbatim>\<open>max_people\<close>) taken out, everything else as in the source.
\<close>

definition check_collision_time_without_own_count ::
  "timezones \<Rightarrow> event list \<Rightarrow> datetime \<Rightarrow> datetime \<Rightarrow> py_error + bool" where
  "check_collision_time_without_own_count tz check_collision start_dt end_dt =
     (if length check_collision = 0 then Inr True
      else if length check_collision > 1 then Inr False
      else case start_dateTime (hd check_collision) of
             None \<Rightarrow> Inl KeyError
           | Some start_date_event \<Rightarrow>
               (case end_dateTime (hd check_collision) of
                  None \<Rightarrow> Inl KeyError
                | Some end_date_event \<Rightarrow>
                    if end_date_event = astimezone tz start_dt
                       \<or> start_date_event = astimezone tz end_dt
                    then Inr True
                    else Inr False))"

fun control_collision_without_own_count ::
  "timezones \<Rightarrow> google_calendar_service \<Rightarrow> EventCreate \<Rightarrow> Calendar option
     \<Rightarrow> (py_error + bool) \<times> Calendar option" where
  "control_collision_without_own_count tz svc event_input None = (Inr False, None)"
| "control_collision_without_own_count tz svc event_input (Some calendar) =
     (let collisions = collision_with_calendar calendar @ [cal_id calendar];
          calendar' = calendar\<lparr>collision_with_calendar := collisions\<rparr>;
          check_collision =
            (if collision_with_calendar calendar' \<noteq> []
             then concat (map (get_events tz svc (start_datetime event_input)
                                 (end_datetime event_input)) collisions)
             else [])
      in (case check_collision_time_without_own_count tz check_collision
                 (start_datetime event_input) (end_datetime event_input) of
            Inl e \<Rightarrow> Inl e
          | Inr free \<Rightarrow> if \<not> free then Inr False else Inr True,
          Some calendar'))"


section \<open>Checks in sequence\<close>

text \<open>
  A list of checks, each with the message of its failure, is gone through from the front:
  a check that raises ends it with the exception, a check that fails ends it with the
  message of that check, and the answer is \<^verbatim>\<open>Access\<close> when every check passes.
\<close>

fun first_failing_check :: "((py_error + bool) \<times> message) list \<Rightarrow> py_error + outcome" where
  "first_failing_check [] = Inr Access"
| "first_failing_check ((Inl e, reason) # checks) = Inl e"
| "first_failing_check ((Inr passed, reason) # checks) =
     (if \<not> passed then Inr (Message reason) else first_failing_check checks)"


section \<open>Example data\<close>

text \<open>
  Prague in summer, two hours (7200000000 microseconds) ahead of UTC, once on a host set
  to the same zone and once on a host set to UTC; the rules of the test fixtures; a
  calendar for eight people that does not collide with itself, and the same calendar for
  one person; bookings from 10:00 to 12:00 and from 11:00 to 14:00 on 12 May 2025, whose
  instants are two hours earlier in UTC.
\<close>

definition cest :: timezones where
  "cest = \<lparr> prague_localize = (\<lambda>d. d - 7200000000),
            astimezone = (\<lambda>d. d - 7200000000) \<rparr>"

definition utc_host :: timezones where
  "utc_host = \<lparr> prague_localize = (\<lambda>d. d - 7200000000),
                astimezone = (\<lambda>d. d) \<rparr>"

definition rules_schema :: Rules where
  "rules_schema = \<lparr> night_time = False, reservation_without_permission = False,
                    max_reservation_hours = 32, in_advance_hours = 36,
                    in_advance_minutes = 0, in_prior_days = 14 \<rparr>"

definition club_room :: Calendar where
  "club_room = \<lparr> cal_id = ''club_room'', reservation_type = ''Club Room'', max_people = 8,
                 more_than_max_people_with_permission = False, collision_with_itself = False,
                 collision_with_calendar = [], club_member_rules = rules_schema,
                 active_member_rules = rules_schema, manager_rules = rules_schema \<rparr>"

definition single_room :: Calendar where
  "single_room = \<lparr> cal_id = ''club_room'', reservation_type = ''Club Room'', max_people = 1,
                   more_than_max_people_with_permission = False, collision_with_itself = False,
                   collision_with_calendar = [], club_member_rules = rules_schema,
                   active_member_rules = rules_schema, manager_rules = rules_schema \<rparr>"

definition strict_rules :: Rules where
  \<comment> \<open>two days of notice, at most one day ahead\<close>
  "strict_rules = \<lparr> night_time = False, reservation_without_permission = False,
                    max_reservation_hours = 32, in_advance_hours = 48,
                    in_advance_minutes = 0, in_prior_days = 1 \<rparr>"

definition long_rules :: Rules where
  \<comment> \<open>a number of hours that \<^verbatim>\<open>Rules\<close> accepts and \<^verbatim>\<open>timedelta\<close> does not\<close>
  "long_rules = \<lparr> night_time = False, reservation_without_permission = False,
                  max_reservation_hours = 30000000000, in_advance_hours = 36,
                  in_advance_minutes = 0, in_prior_days = 14 \<rparr>"

definition long_room :: Calendar where
  "long_room = \<lparr> cal_id = ''club_room'', reservation_type = ''Club Room'', max_people = 8,
                 more_than_max_people_with_permission = False, collision_with_itself = False,
                 collision_with_calendar = [], club_member_rules = long_rules,
                 active_member_rules = long_rules, manager_rules = long_rules \<rparr>"

definition booking_10_12 :: event where
  "booking_10_12 = \<lparr> start_dateTime = Some (at_day 739382 8 0),
                     end_dateTime = Some (at_day 739382 10 0) \<rparr>"

definition booking_11_14 :: event where
  "booking_11_14 = \<lparr> start_dateTime = Some (at_day 739382 9 0),
                     end_dateTime = Some (at_day 739382 12 0) \<rparr>"

definition one_booking :: google_calendar_service where
  "one_booking calendar_id time_min time_max =
     (if calendar_id = ''club_room'' then [booking_10_12] else [])"

definition two_bookings :: google_calendar_service where
  "two_bookings calendar_id time_min time_max =
     (if calendar_id = ''club_room'' then [booking_10_12, booking_11_14] else [])"

definition no_booking :: google_calendar_service where
  "no_booking calendar_id time_min time_max = []"

definition request_12_13 :: EventCreate where
  "request_12_13 = \<lparr> start_datetime = at_day 739382 12 0, end_datetime = at_day 739382 13 0,
                     guests = 5, ec_reservation_type = ''Club Room'' \<rparr>"

definition request_10_11 :: EventCreate where
  "request_10_11 = \<lparr> start_datetime = at_day 739382 10 0, end_datetime = at_day 739382 11 0,
                     guests = 5, ec_reservation_type = ''Club Room'' \<rparr>"

definition request_11_59_13 :: EventCreate where
  "request_11_59_13 = \<lparr> start_datetime = at_day 739382 11 59, end_datetime = at_day 739382 13 0,
                        guests = 5, ec_reservation_type = ''Club Room'' \<rparr>"

definition request_13_12 :: EventCreate where
  "request_13_12 = \<lparr> start_datetime = at_day 739382 13 0, end_datetime = at_day 739382 12 0,
                     guests = 5, ec_reservation_type = ''Club Room'' \<rparr>"

definition request_10_guests :: EventCreate where
  "request_10_guests = \<lparr> start_datetime = at_day 739382 12 0, end_datetime = at_day 739382 13 0,
                         guests = 10, ec_reservation_type = ''Club Room'' \<rparr>"

definition game :: ReservationService where
  "game = \<lparr> rs_alias = ''game'', rs_name = ''Game room'' \<rparr>"

definition services_with_game :: "ServiceValidity list" where
  "services_with_game = [\<lparr> service = \<lparr> svc_alias = ''game'' \<rparr> \<rparr>]"

definition member :: User where
  "member = \<lparr> active_member = True, roles = Some [] \<rparr>"

definition applicant :: User where
  \<comment> \<open>an active member whose roles are \<^verbatim>\<open>None\<close>\<close>
  "applicant = \<lparr> active_member = True, roles = None \<rparr>"

definition early_may :: datetime where
  \<comment> \<open>7 May 2025, 09:00\<close>
  "early_may = at_day 739377 9 0"

definition late_april :: datetime where
  \<comment> \<open>17 April 2025, 09:00, twenty days before \<open>early_may\<close>\<close>
  "late_april = at_day 739357 9 0"

definition two_nights_ago :: datetime where
  \<comment> \<open>5 May 2025, 21:00, thirty-six hours before \<open>early_may\<close>\<close>
  "two_nights_ago = at_day 739375 21 0"


section \<open>Auxiliary facts\<close>

lemma own_events_le_gathered:
  "length (get_events tz svc (start_datetime ei) (end_datetime ei) (cal_id calendar))
     \<le> length (gathered tz svc ei calendar)"
  by (simp add: gathered_def)

lemma control_collision_Some:
  "control_collision tz svc ei (Some calendar) =
     (case check_collision_time tz (gathered tz svc ei calendar) (start_datetime ei) (end_datetime ei)
             (calendar\<lparr>collision_with_calendar := collision_with_calendar calendar @ [cal_id calendar]\<rparr>)
             svc of
        Inl e \<Rightarrow> Inl e
      | Inr free \<Rightarrow> Inr free,
      Some (calendar\<lparr>collision_with_calendar := collision_with_calendar calendar @ [cal_id calendar]\<rparr>))"
  by (simp add: gathered_def Let_def split: sum.splits)

lemma check_collision_time_many:
  "1 < length cc \<Longrightarrow> check_collision_time tz cc s e calendar svc = Inr False"
  by (cases cc) (simp_all add: check_collision_time_def)

lemma check_collision_time_without_own_count_many:
  "1 < length cc \<Longrightarrow> check_collision_time_without_own_count tz cc s e = Inr False"
  by (cases cc) (simp_all add: check_collision_time_without_own_count_def)

lemma choose_user_rules_collision_list:
  "choose_user_rules user (calendar\<lparr>collision_with_calendar := cs\<rparr>) rs =
     choose_user_rules user calendar rs"
  by (simp add: choose_user_rules_def split: option.splits)

lemma control_conditions_collision_list:
  "control_conditions_and_permissions now0 now1 now2 user services ei
       (calendar\<lparr>collision_with_calendar := cs\<rparr>) rs =
     control_conditions_and_permissions now0 now1 now2 user services ei calendar rs"
  by (simp add: control_conditions_and_permissions_def choose_user_rules_collision_list Let_def)

lemma create_event_Some:
  "create_event tz svc now0 now1 now2 user services ec (Some calendar) rs =
     (case fst (control_collision tz svc ec (Some calendar)) of
        Inl e \<Rightarrow> Inl e
      | Inr False \<Rightarrow> Inr (AlreadyReservation, None)
      | Inr True \<Rightarrow>
          (case control_conditions_and_permissions now0 now1 now2 user services ec calendar rs of
             Inl e \<Rightarrow> Inl e
           | Inr (Message m) \<Rightarrow> Inr (MessageContent m, None)
           | Inr Access \<Rightarrow>
               if guests ec > max_people calendar
               then Inr (MoreThanMaxPeople (max_people calendar), Some NOT_APPROVED)
               else if \<not> check_night_reservation user
                       \<and> \<not> control_available_reservation_time (start_datetime ec) (end_datetime ec)
               then Inr (NightTime, Some NOT_APPROVED)
               else Inr (EventInserted, Some CONFIRMED)))"
  unfolding create_event_def control_collision_Some
  by (simp add: post_event_def control_conditions_collision_list
           split: sum.splits bool.splits outcome.splits)


section \<open>The collision check\<close>

text \<open>
  What \<^verbatim>\<open>control_collision\<close> answers for a single gathered event with a start and an
  end time, on a calendar for at least one person: the time is free exactly when the end
  or the start of the event is the requested start or end as \<^verbatim>\<open>astimezone\<close> reads it,
  that is, in the zone of the host.
\<close>

lemma single_collision_answer:
  assumes mp: "1 \<le> max_people calendar"
      and g: "gathered tz svc ei calendar = [ev]"
      and es: "start_dateTime ev = Some es"
      and ee: "end_dateTime ev = Some ee"
  shows "fst (control_collision tz svc ei (Some calendar)) =
           Inr (ee = astimezone tz (start_datetime ei) \<or> es = astimezone tz (end_datetime ei))"
proof -
  have "length (get_events tz svc (start_datetime ei) (end_datetime ei) (cal_id calendar)) \<le> 1"
    using own_events_le_gathered [of tz svc ei calendar] g by simp
  with mp have "\<not> max_people calendar
                    < int (length (get_events tz svc (start_datetime ei) (end_datetime ei)
                                     (cal_id calendar)))"
    by linarith
  then show ?thesis
    unfolding control_collision_Some using g es ee by (simp add: check_collision_time_def)
qed

text \<open>
  Claim C1. The claim lets a single existing booking pass exactly when it is back-to-back
  with the request, and the events are asked for, and the new event is written, with the
  request read as Prague time. The comparison in \<^verbatim>\<open>check_collision_time\<close> reads the
  request in the zone of the host instead. On a host set to UTC, with Prague two hours
  ahead: the booking from 10:00 to 12:00 ends where the request from 12:00 to 13:00 starts,
  and the answer is a conflict; the request from 10:00 to 11:00 lies inside the booking,
  and the answer is that the time is free. On a host set to the zone of Prague the first
  request is answered free.
\<close>

theorem single_collision_read_in_host_zone:
  "gathered utc_host one_booking request_12_13 club_room = [booking_10_12]
   \<and> end_dateTime booking_10_12 = Some (prague_localize utc_host (start_datetime request_12_13))
   \<and> fst (control_collision utc_host one_booking request_12_13 (Some club_room)) = Inr False
   \<and> gathered utc_host one_booking request_10_11 club_room = [booking_10_12]
   \<and> start_dateTime booking_10_12 = Some (prague_localize utc_host (start_datetime request_10_11))
   \<and> prague_localize utc_host (end_datetime request_10_11)
        < prague_localize utc_host (start_datetime request_12_13)
   \<and> fst (control_collision utc_host one_booking request_10_11 (Some club_room)) = Inr True
   \<and> fst (control_collision cest one_booking request_12_13 (Some club_room)) = Inr True"
proof -
  have mp: "1 \<le> max_people club_room"
    by (simp add: club_room_def)
  have g1: "gathered utc_host one_booking request_12_13 club_room = [booking_10_12]"
    and g2: "gathered utc_host one_booking request_10_11 club_room = [booking_10_12]"
    and g3: "gathered cest one_booking request_12_13 club_room = [booking_10_12]"
    by (simp_all add: gathered_def club_room_def get_events_def one_booking_def)
  have es: "start_dateTime booking_10_12 = Some (at_day 739382 8 0)"
    and ee: "end_dateTime booking_10_12 = Some (at_day 739382 10 0)"
    by (simp_all add: booking_10_12_def)
  have a1: "fst (control_collision utc_host one_booking request_12_13 (Some club_room)) = Inr False"
    unfolding single_collision_answer [OF mp g1 es ee]
    by (simp add: utc_host_def request_12_13_def at_day_def)
  have a2: "fst (control_collision utc_host one_booking request_10_11 (Some club_room)) = Inr True"
    unfolding single_collision_answer [OF mp g2 es ee]
    by (simp add: utc_host_def request_10_11_def at_day_def)
  have a3: "fst (control_collision cest one_booking request_12_13 (Some club_room)) = Inr True"
    unfolding single_collision_answer [OF mp g3 es ee]
    by (simp add: cest_def request_12_13_def at_day_def)
  have p1: "end_dateTime booking_10_12 = Some (prague_localize utc_host (start_datetime request_12_13))"
    by (simp add: booking_10_12_def utc_host_def request_12_13_def at_day_def)
  have p2: "start_dateTime booking_10_12 = Some (prague_localize utc_host (start_datetime request_10_11))"
    by (simp add: booking_10_12_def utc_host_def request_10_11_def at_day_def)
  have p3: "prague_localize utc_host (end_datetime request_10_11)
              < prague_localize utc_host (start_datetime request_12_13)"
    by (simp add: utc_host_def request_10_11_def request_12_13_def at_day_def)
  from g1 p1 a1 g2 p2 p3 a2 a3 show ?thesis
    by (intro conjI)
qed

text \<open>
  Claim C2. When the list of gathered events holds more than one event, the answer is a
  conflict, from \<^verbatim>\<open>check_collision_time\<close> and from \<^verbatim>\<open>control_collision\<close>; and
  \<^verbatim>\<open>check_collision_time\<close> gives the same answer for a list and for any permutation
  of it.
\<close>

theorem many_collisions_conflict_any_order:
  "(1 < length cc \<longrightarrow> check_collision_time tz cc s e calendar svc = Inr False)
   \<and> (1 < length (gathered tz svc ei calendar)
        \<longrightarrow> fst (control_collision tz svc ei (Some calendar)) = Inr False)
   \<and> (mset cc = mset cc'
        \<longrightarrow> check_collision_time tz cc s e calendar svc = check_collision_time tz cc' s e calendar svc)"
proof (intro conjI impI)
  assume "1 < length cc"
  then show "check_collision_time tz cc s e calendar svc = Inr False"
    by (rule check_collision_time_many)
next
  assume "1 < length (gathered tz svc ei calendar)"
  then show "fst (control_collision tz svc ei (Some calendar)) = Inr False"
    unfolding control_collision_Some by (simp add: check_collision_time_many)
next
  assume perm: "mset cc = mset cc'"
  then have len: "length cc = length cc'"
    by (rule mset_eq_length)
  consider "cc = []" | x where "cc = [x]" | "1 < length cc"
    by (cases cc rule: list.exhaust) (auto simp: Suc_lessI)
  then show "check_collision_time tz cc s e calendar svc = check_collision_time tz cc' s e calendar svc"
  proof cases
    case 1
    with perm show ?thesis by simp
  next
    case 2
    with perm have "cc' = [x]" by simp
    with 2 show ?thesis by simp
  next
    case 3
    with len have "1 < length cc'" by simp
    with 3 show ?thesis by (simp add: check_collision_time_many)
  qed
qed

theorem many_collisions_conflict_any_order_witness:
  "check_collision_time cest [booking_10_12, booking_11_14] (at_day 739382 11 30)
       (at_day 739382 13 0) club_room two_bookings = Inr False
   \<and> check_collision_time cest [booking_11_14, booking_10_12] (at_day 739382 11 30)
       (at_day 739382 13 0) club_room two_bookings = Inr False
   \<and> fst (control_collision cest two_bookings request_11_59_13 (Some club_room)) = Inr False"
proof -
  have l1: "1 < length [booking_10_12, booking_11_14]"
    and l2: "1 < length [booking_11_14, booking_10_12]"
    by simp_all
  have l3: "1 < length (gathered cest two_bookings request_11_59_13 club_room)"
    by (simp add: gathered_def club_room_def get_events_def two_bookings_def)
  show ?thesis
    using many_collisions_conflict_any_order
            [where cc = "[booking_10_12, booking_11_14]" and tz = cest
               and s = "at_day 739382 11 30" and e = "at_day 739382 13 0"
               and calendar = club_room and svc = two_bookings and ei = request_11_59_13]
          many_collisions_conflict_any_order
            [where cc = "[booking_11_14, booking_10_12]" and tz = cest
               and s = "at_day 739382 11 30" and e = "at_day 739382 13 0"
               and calendar = club_room and svc = two_bookings and ei = request_11_59_13]
          l1 l2 l3
    by simp
qed

text \<open>
  Claim C9. On a calendar for at least one person, the count of the calendar's own events
  against \<^verbatim>\<open>max_people\<close> never changes the answer: \<^verbatim>\<open>control_collision\<close> and its
  variant without that count return the same answer and leave the same calendar. The
  calendar's own events are among the gathered ones, so more of them than
  \<^verbatim>\<open>max_people\<close> are more than one gathered event, which is a conflict already.
\<close>

theorem own_count_is_redundant:
  assumes "1 \<le> max_people calendar"
  shows "control_collision tz svc ei (Some calendar) =
           control_collision_without_own_count tz svc ei (Some calendar)"
proof (cases "max_people calendar
                < int (length (get_events tz svc (start_datetime ei) (end_datetime ei)
                                 (cal_id calendar)))")
  case True
  with assms have "1 < length (get_events tz svc (start_datetime ei) (end_datetime ei)
                                 (cal_id calendar))"
    by linarith
  then have many: "1 < length (gathered tz svc ei calendar)"
    using own_events_le_gathered [of tz svc ei calendar] by linarith
  then have "check_collision_time_without_own_count tz (gathered tz svc ei calendar)
               (start_datetime ei) (end_datetime ei) = Inr False"
    by (rule check_collision_time_without_own_count_many)
  moreover have "check_collision_time tz (gathered tz svc ei calendar) (start_datetime ei)
                   (end_datetime ei)
                   (calendar\<lparr>collision_with_calendar :=
                               collision_with_calendar calendar @ [cal_id calendar]\<rparr>) svc
                 = Inr False"
    using many by (rule check_collision_time_many)
  ultimately show ?thesis
    by (simp add: gathered_def Let_def)
next
  case False
  then show ?thesis
    by (simp add: Let_def check_collision_time_def check_collision_time_without_own_count_def)
qed

theorem own_count_is_redundant_witness:
  "1 \<le> max_people single_room
   \<and> \<not> collision_with_itself single_room
   \<and> max_people single_room
        < int (length (get_events cest two_bookings (start_datetime request_12_13)
                         (end_datetime request_12_13) (cal_id single_room)))
   \<and> control_collision cest two_bookings request_12_13 (Some single_room) =
       control_collision_without_own_count cest two_bookings request_12_13 (Some single_room)
   \<and> fst (control_collision cest two_bookings request_12_13 (Some single_room)) = Inr False"
proof -
  have mp: "1 \<le> max_people single_room"
    by (simp add: single_room_def)
  have self: "\<not> collision_with_itself single_room"
    by (simp add: single_room_def)
  have own: "max_people single_room
               < int (length (get_events cest two_bookings (start_datetime request_12_13)
                                (end_datetime request_12_13) (cal_id single_room)))"
    by (simp add: single_room_def get_events_def two_bookings_def)
  have same: "control_collision cest two_bookings request_12_13 (Some single_room) =
                control_collision_without_own_count cest two_bookings request_12_13
                  (Some single_room)"
    using mp by (rule own_count_is_redundant)
  have answer: "fst (control_collision cest two_bookings request_12_13 (Some single_room)) = Inr False"
    unfolding control_collision_Some using self own
    by (simp add: check_collision_time_def)
  from mp self own same answer show ?thesis
    by (intro conjI)
qed


section \<open>The checks of a request\<close>

text \<open>
  Claim C3. \<^verbatim>\<open>__control_conditions_and_permissions\<close> goes through its checks in this
  order and answers with the message of the first one that fails: the user has the
  service; the start is not before now; the end is not before the start; the guests are
  within \<^verbatim>\<open>max_people\<close> unless more are allowed with permission; the duration; the time
  in advance; the days prior. It answers \<^verbatim>\<open>Access\<close> when none fails. The rules of the
  user are chosen between the fourth check and the fifth; where that choice raises, or
  where one of the last three checks raises, the exception comes in the place of the check.
\<close>

theorem checks_answer_first_failure:
  "(choose_user_rules user calendar rs = Inr user_rules \<longrightarrow>
      control_conditions_and_permissions now0 now1 now2 user services ei calendar rs =
        first_failing_check
          [(Inr (service_availability_check services (rs_alias rs)), NoService (rs_alias rs)),
           (Inr (\<not> start_datetime ei < now0), BeforePresent),
           (Inr (\<not> end_datetime ei < start_datetime ei), EndBeforeBeginning),
           (Inr (more_than_max_people_with_permission calendar
                 \<or> \<not> guests ei > max_people calendar),
              MoreThanPeople (max_people calendar)),
           (dif_days_res (start_datetime ei) (end_datetime ei) user_rules, DifferentDay),
           (control_res_in_advance_or_prior now1 (start_datetime ei) user_rules True,
              InAdvance (in_advance_hours user_rules) (in_advance_minutes user_rules)),
           (control_res_in_advance_or_prior now2 (start_datetime ei) user_rules False,
              EarlierThanPrior (in_prior_days user_rules))])
   \<and> (choose_user_rules user calendar rs = Inl e \<longrightarrow>
      control_conditions_and_permissions now0 now1 now2 user services ei calendar rs =
        first_failing_check
          [(Inr (service_availability_check services (rs_alias rs)), NoService (rs_alias rs)),
           (Inr (\<not> start_datetime ei < now0), BeforePresent),
           (Inr (\<not> end_datetime ei < start_datetime ei), EndBeforeBeginning),
           (Inr (more_than_max_people_with_permission calendar
                 \<or> \<not> guests ei > max_people calendar),
              MoreThanPeople (max_people calendar)),
           (Inl e, DifferentDay)])"
  by (auto simp: control_conditions_and_permissions_def first_standard_check_def
        reservation_in_advance_def Let_def split: sum.splits)

theorem checks_answer_first_failure_witness:
  "control_conditions_and_permissions early_may early_may early_may member services_with_game
       request_12_13 club_room game = Inr Access
   \<and> control_conditions_and_permissions early_may early_may early_may member services_with_game
       request_13_12 club_room game = Inr (Message EndBeforeBeginning)
   \<and> control_conditions_and_permissions early_may early_may early_may member services_with_game
       request_12_13 long_room game = Inl OverflowError
   \<and> control_conditions_and_permissions early_may early_may early_may applicant []
       request_12_13 club_room game = Inr (Message (NoService ''game''))
   \<and> control_conditions_and_permissions early_may early_may early_may applicant services_with_game
       request_12_13 club_room game = Inl TypeError"
proof -
  have r: "choose_user_rules member club_room game = Inr rules_schema"
    and rl: "choose_user_rules member long_room game = Inr long_rules"
    and rn: "choose_user_rules applicant club_room game = Inl TypeError"
    by (simp_all add: choose_user_rules_def member_def applicant_def club_room_def long_room_def
          game_def)
  have svc: "service_availability_check services_with_game (rs_alias game)"
    and nosvc: "\<not> service_availability_check [] (rs_alias game)"
    and al: "rs_alias game = ''game''"
    by (simp_all add: services_with_game_def game_def)
  have t1: "\<not> start_datetime request_12_13 < early_may"
    and t2: "\<not> end_datetime request_12_13 < start_datetime request_12_13"
    and t3: "\<not> start_datetime request_13_12 < early_may"
    and t4: "end_datetime request_13_12 < start_datetime request_13_12"
    by (simp_all add: request_12_13_def request_13_12_def early_may_def at_day_def)
  have cap: "\<not> guests request_12_13 > max_people club_room"
    and capl: "\<not> guests request_12_13 > max_people long_room"
    by (simp_all add: request_12_13_def club_room_def long_room_def)
  have dur: "dif_days_res (start_datetime request_12_13) (end_datetime request_12_13) rules_schema
               = Inr True"
    by (simp add: dif_days_res_def timedelta_def rules_schema_def request_12_13_def at_day_def
          Let_def)
  have durl: "dif_days_res (start_datetime request_12_13) (end_datetime request_12_13) long_rules
                = Inl OverflowError"
    by (simp add: dif_days_res_def timedelta_def long_rules_def Let_def)
  have adv: "control_res_in_advance_or_prior early_may (start_datetime request_12_13) rules_schema
               True = Inr True"
    and pri: "control_res_in_advance_or_prior early_may (start_datetime request_12_13) rules_schema
                False = Inr True"
    by (simp_all add: control_res_in_advance_or_prior_def timedelta_def rules_schema_def
          request_12_13_def early_may_def at_day_def Let_def)
  note first = checks_answer_first_failure [THEN conjunct1, rule_format]
  note second = checks_answer_first_failure [THEN conjunct2, rule_format]
  have "control_conditions_and_permissions early_may early_may early_may member services_with_game
          request_12_13 club_room game = Inr Access"
    unfolding first [OF r] by (simp add: svc t1 t2 cap dur adv pri)
  moreover
  have "control_conditions_and_permissions early_may early_may early_may member services_with_game
          request_13_12 club_room game = Inr (Message EndBeforeBeginning)"
    unfolding first [OF r] by (simp add: svc t3 t4)
  moreover
  have "control_conditions_and_permissions early_may early_may early_may member services_with_game
          request_12_13 long_room game = Inl OverflowError"
    unfolding first [OF rl] by (simp add: svc t1 t2 capl durl)
  moreover
  have "control_conditions_and_permissions early_may early_may early_may applicant []
          request_12_13 club_room game = Inr (Message (NoService ''game''))"
    unfolding second [OF rn] by (simp add: nosvc al)
  moreover
  have "control_conditions_and_permissions early_may early_may early_may applicant services_with_game
          request_12_13 club_room game = Inl TypeError"
    unfolding second [OF rn] by (simp add: svc t1 t2 cap)
  ultimately show ?thesis
    by (intro conjI)
qed

text \<open>
  Claim C6, as stated, fails in its last part: a start in the past by more than
  \<^verbatim>\<open>in_prior_days\<close> is not always refused as too early in advance. With two days of
  notice and one day of window, a start thirty-six hours before now is refused with the
  message of the time in advance, since that check comes first and fails as well.
\<close>

theorem past_start_refused_for_notice:
  "timedelta (in_prior_days strict_rules) 0 0 = Inr 86400000000
   \<and> two_nights_ago < early_may
   \<and> 86400000000 < early_may - two_nights_ago
   \<and> reservation_in_advance early_may early_may two_nights_ago strict_rules =
       Inr (Message (InAdvance 48 0))"
  by (simp add: reservation_in_advance_def control_res_in_advance_or_prior_def timedelta_def
        strict_rules_def early_may_def two_nights_ago_def at_day_def Let_def)

text \<open>
  Claim C6, amended. The checks of the time in advance and of the days prior compare the
  absolute value of start minus now with their limits: the first fails exactly when the
  absolute value is less than \<^verbatim>\<open>in_advance_hours\<close> hours and \<^verbatim>\<open>in_advance_minutes\<close>
  minutes, the second exactly when it is more than \<^verbatim>\<open>in_prior_days\<close> days. So two starts
  at the same distance from now, one before and one after it, get the same verdict from
  each check, and a start in the past by more than \<^verbatim>\<open>in_prior_days\<close> days fails the check
  of the days prior. \<^verbatim>\<open>reservation_in_advance\<close> refuses such a start as too early in
  advance when the check of the time in advance passes, and with the message of the time
  in advance when that check fails.
\<close>

theorem advance_and_prior_use_absolute_difference:
  "(timedelta 0 (in_advance_hours user_rules) (in_advance_minutes user_rules) = Inr notice
      \<longrightarrow> control_res_in_advance_or_prior now start_time user_rules True =
            Inr (\<not> \<bar>start_time - now\<bar> < notice))
   \<and> (timedelta (in_prior_days user_rules) 0 0 = Inr window
        \<longrightarrow> control_res_in_advance_or_prior now start_time user_rules False =
              Inr (\<not> window < \<bar>start_time - now\<bar>))
   \<and> control_res_in_advance_or_prior now (now + d) user_rules in_advance =
       control_res_in_advance_or_prior now (now - d) user_rules in_advance
   \<and> (timedelta (in_prior_days user_rules) 0 0 = Inr window \<and> window < now - start_time
        \<longrightarrow> control_res_in_advance_or_prior now start_time user_rules False = Inr False)
   \<and> (timedelta (in_prior_days user_rules) 0 0 = Inr window \<and> window < now_second - start_time
        \<and> control_res_in_advance_or_prior now_first start_time user_rules True = Inr True
        \<longrightarrow> reservation_in_advance now_first now_second start_time user_rules =
              Inr (Message (EarlierThanPrior (in_prior_days user_rules))))
   \<and> (control_res_in_advance_or_prior now_first start_time user_rules True = Inr False
        \<longrightarrow> reservation_in_advance now_first now_second start_time user_rules =
              Inr (Message (InAdvance (in_advance_hours user_rules)
                                      (in_advance_minutes user_rules))))"
proof (intro conjI impI)
  assume "timedelta 0 (in_advance_hours user_rules) (in_advance_minutes user_rules) = Inr notice"
  then show "control_res_in_advance_or_prior now start_time user_rules True =
               Inr (\<not> \<bar>start_time - now\<bar> < notice)"
    by (simp add: control_res_in_advance_or_prior_def Let_def)
next
  assume "timedelta (in_prior_days user_rules) 0 0 = Inr window"
  then show "control_res_in_advance_or_prior now start_time user_rules False =
               Inr (\<not> window < \<bar>start_time - now\<bar>)"
    by (simp add: control_res_in_advance_or_prior_def Let_def)
next
  show "control_res_in_advance_or_prior now (now + d) user_rules in_advance =
          control_res_in_advance_or_prior now (now - d) user_rules in_advance"
    by (simp add: control_res_in_advance_or_prior_def Let_def)
next
  assume a: "timedelta (in_prior_days user_rules) 0 0 = Inr window \<and> window < now - start_time"
  then have "window < \<bar>start_time - now\<bar>"
    by linarith
  with a show "control_res_in_advance_or_prior now start_time user_rules False = Inr False"
    by (simp add: control_res_in_advance_or_prior_def Let_def)
next
  assume a: "timedelta (in_prior_days user_rules) 0 0 = Inr window \<and> window < now_second - start_time
             \<and> control_res_in_advance_or_prior now_first start_time user_rules True = Inr True"
  then have "window < \<bar>start_time - now_second\<bar>"
    by linarith
  with a have "control_res_in_advance_or_prior now_second start_time user_rules False = Inr False"
    by (simp add: control_res_in_advance_or_prior_def Let_def)
  with a show "reservation_in_advance now_first now_second start_time user_rules =
                 Inr (Message (EarlierThanPrior (in_prior_days user_rules)))"
    by (simp add: reservation_in_advance_def)
next
  assume "control_res_in_advance_or_prior now_first start_time user_rules True = Inr False"
  then show "reservation_in_advance now_first now_second start_time user_rules =
               Inr (Message (InAdvance (in_advance_hours user_rules)
                                       (in_advance_minutes user_rules)))"
    by (simp add: reservation_in_advance_def)
qed

theorem advance_and_prior_use_absolute_difference_witness:
  "control_res_in_advance_or_prior early_may late_april rules_schema False = Inr False
   \<and> control_res_in_advance_or_prior early_may (early_may + (early_may - late_april)) rules_schema
         False = Inr False
   \<and> control_res_in_advance_or_prior early_may late_april rules_schema True = Inr True
   \<and> reservation_in_advance early_may early_may late_april rules_schema =
       Inr (Message (EarlierThanPrior 14))
   \<and> reservation_in_advance early_may early_may two_nights_ago strict_rules =
       Inr (Message (InAdvance 48 0))"
proof -
  have notice: "timedelta 0 (in_advance_hours rules_schema) (in_advance_minutes rules_schema)
                  = Inr 129600000000"
    and window: "timedelta (in_prior_days rules_schema) 0 0 = Inr 1209600000000"
    and notice': "timedelta 0 (in_advance_hours strict_rules) (in_advance_minutes strict_rules)
                    = Inr 172800000000"
    by (simp_all add: timedelta_def rules_schema_def strict_rules_def Let_def)
  have dist: "early_may - late_april = 1728000000000"
    and dist': "\<bar>late_april - early_may\<bar> = 1728000000000"
    and dist'': "\<bar>two_nights_ago - early_may\<bar> = 129600000000"
    by (simp_all add: early_may_def late_april_def two_nights_ago_def at_day_def)
  note parts = advance_and_prior_use_absolute_difference
  have past: "control_res_in_advance_or_prior early_may late_april rules_schema False = Inr False"
    using parts [where user_rules = rules_schema and window = 1209600000000 and now = early_may
                 and start_time = late_april, THEN conjunct2, THEN conjunct2, THEN conjunct2,
               THEN conjunct1]
          window dist
    by simp
  have same: "control_res_in_advance_or_prior early_may (early_may + (early_may - late_april))
                rules_schema False =
              control_res_in_advance_or_prior early_may (early_may - (early_may - late_april))
                rules_schema False"
    by (rule parts [THEN conjunct2, THEN conjunct2, THEN conjunct1])
  have future: "control_res_in_advance_or_prior early_may (early_may + (early_may - late_april))
                  rules_schema False = Inr False"
    using same past by simp
  have ok: "control_res_in_advance_or_prior early_may late_april rules_schema True = Inr True"
    using parts [where user_rules = rules_schema and notice = 129600000000 and now = early_may
                 and start_time = late_april, THEN conjunct1]
          notice dist'
    by simp
  have early: "reservation_in_advance early_may early_may late_april rules_schema =
                 Inr (Message (EarlierThanPrior 14))"
    using parts [where user_rules = rules_schema and window = 1209600000000 and now_first = early_may
                 and now_second = early_may and start_time = late_april,
               THEN conjunct2, THEN conjunct2, THEN conjunct2, THEN conjunct2, THEN conjunct1]
          window dist ok
    by (simp add: rules_schema_def)
  have short: "control_res_in_advance_or_prior early_may two_nights_ago strict_rules True
                 = Inr False"
    using parts [where user_rules = strict_rules and notice = 172800000000 and now = early_may
                 and start_time = two_nights_ago, THEN conjunct1]
          notice' dist''
    by simp
  have late: "reservation_in_advance early_may early_may two_nights_ago strict_rules =
                Inr (Message (InAdvance 48 0))"
    using parts [where user_rules = strict_rules and now_first = early_may and now_second = early_may
                 and start_time = two_nights_ago,
               THEN conjunct2, THEN conjunct2, THEN conjunct2, THEN conjunct2, THEN conjunct2]
          short
    by (simp add: strict_rules_def)
  from past future ok early late show ?thesis
    by (intro conjI)
qed

text \<open>
  Claim C10. The check of the night time reads only the times of day of start and end: it
  fails exactly when the start is before 08:00, or the end is before 08:00 or after 22:00,
  and two requests with the same times of day get the same answer. A request from 23:00
  of one day to 12:00 of the next passes, although it holds the midnight between them.
\<close>

theorem night_check_reads_time_of_day_only:
  "(control_available_reservation_time s e \<longleftrightarrow>
      \<not> (datetime_time s < strptime_time 8 0 0 \<or> datetime_time e < strptime_time 8 0 0
         \<or> datetime_time e > strptime_time 22 0 0))
   \<and> (datetime_time s = datetime_time s' \<and> datetime_time e = datetime_time e'
        \<longrightarrow> control_available_reservation_time s e = control_available_reservation_time s' e')
   \<and> control_available_reservation_time (at_day day 23 0) (at_day (day + 1) 12 0)
   \<and> at_day day 23 0 \<le> at_day (day + 1) 0 0
   \<and> at_day (day + 1) 0 0 \<le> at_day (day + 1) 12 0
   \<and> datetime_time (at_day (day + 1) 0 0) < strptime_time 8 0 0"
  by (simp add: control_available_reservation_time_def Let_def at_day_def datetime_time_def
        strptime_time_def)

theorem night_check_reads_time_of_day_only_witness:
  "control_available_reservation_time (at_day 739382 23 0) (at_day 739383 12 0)
   \<and> \<not> control_available_reservation_time (at_day 739382 23 0) (at_day 739383 7 0)
   \<and> datetime_time (at_day 739383 0 0) = 0"
  using night_check_reads_time_of_day_only [of "at_day 739382 23 0" "at_day 739383 7 0"
          "at_day 739382 23 0" "at_day 739383 7 0" 739382]
  by (simp add: at_day_def datetime_time_def strptime_time_def)


section \<open>The rules\<close>

text \<open>
  Claim C8. Building \<^verbatim>\<open>Rules\<close> with a negative number of hours, minutes or days fails
  with a validation error when the object is built, and every \<^verbatim>\<open>Rules\<close> that is built
  has all four numbers at least zero.
\<close>

theorem rules_numbers_not_negative:
  "(mrh < 0 \<or> iah < 0 \<or> iam < 0 \<or> ipd < 0
      \<longrightarrow> mk_Rules nt rwp mrh iah iam ipd = Inl ValidationError)
   \<and> (\<forall>r. mk_Rules nt rwp mrh iah iam ipd = Inr r
        \<longrightarrow> 0 \<le> max_reservation_hours r \<and> 0 \<le> in_advance_hours r
            \<and> 0 \<le> in_advance_minutes r \<and> 0 \<le> in_prior_days r)"
  by (auto simp: mk_Rules_def split: if_splits)

theorem rules_numbers_not_negative_witness:
  "mk_Rules False False 32 36 (- 1) 14 = Inl ValidationError
   \<and> mk_Rules False False 32 36 0 14 = Inr rules_schema
   \<and> 0 \<le> in_advance_minutes rules_schema"
proof -
  have ok: "mk_Rules False False 32 36 0 14 = Inr rules_schema"
    by (simp add: mk_Rules_def rules_schema_def)
  show ?thesis
    using rules_numbers_not_negative [of 32 36 "- 1" 14 False False]
          rules_numbers_not_negative [of 32 36 0 14 False False] ok
    by simp
qed


section \<open>The booking flow\<close>

text \<open>
  Claim C4, as stated, fails: a request whose end is before its start is answered with
  the message of a reservation already made when the collision check reports a conflict,
  and with the message of the missing service when the user does not have the service;
  both checks come before the check of the interval.
\<close>

theorem inverted_request_other_answers:
  "end_datetime request_13_12 < start_datetime request_13_12
   \<and> create_event cest two_bookings early_may early_may early_may member services_with_game
         request_13_12 (Some club_room) game = Inr (AlreadyReservation, None)
   \<and> create_event cest no_booking early_may early_may early_may member []
         request_13_12 (Some club_room) game = Inr (MessageContent (NoService ''game''), None)"
proof -
  have "fst (control_collision cest two_bookings request_13_12 (Some club_room)) = Inr False"
    unfolding control_collision_Some
    by (simp add: check_collision_time_many gathered_def club_room_def get_events_def two_bookings_def)
  moreover
  have "fst (control_collision cest no_booking request_13_12 (Some club_room)) = Inr True"
    unfolding control_collision_Some
    by (simp add: check_collision_time_def gathered_def club_room_def get_events_def no_booking_def)
  moreover
  have "control_conditions_and_permissions early_may early_may early_may member []
          request_13_12 club_room game = Inr (Message (NoService ''game''))"
    by (simp add: control_conditions_and_permissions_def first_standard_check_def game_def)
  ultimately show ?thesis
    by (simp add: create_event_Some request_13_12_def at_day_def)
qed

text \<open>
  Claim C4, amended. For a request whose end is before its start, \<^verbatim>\<open>create_event\<close>
  never gives an answer about the number of people and never writes an event. When
  the collision check reports the time free and the user has the service, the answer
  is the message of the interval: a start before the present time, or else an end before
  the beginning.
\<close>

theorem inverted_request_invalid_interval:
  assumes inv: "end_datetime ec < start_datetime ec"
  shows "(\<forall>n st. create_event tz svc now0 now1 now2 user services ec (Some calendar) rs
                    \<noteq> Inr (MessageContent (MoreThanPeople n), st)
                \<and> create_event tz svc now0 now1 now2 user services ec (Some calendar) rs
                    \<noteq> Inr (MoreThanMaxPeople n, st))
         \<and> (\<forall>r st. create_event tz svc now0 now1 now2 user services ec (Some calendar) rs
                      \<noteq> Inr (r, Some st))
         \<and> (fst (control_collision tz svc ec (Some calendar)) = Inr True
              \<and> service_availability_check services (rs_alias rs)
              \<longrightarrow> create_event tz svc now0 now1 now2 user services ec (Some calendar) rs =
                    Inr (MessageContent (if start_datetime ec < now0 then BeforePresent
                                         else EndBeforeBeginning), None))"
proof -
  have std: "first_standard_check now0 services rs (start_datetime ec) (end_datetime ec) =
               (if \<not> service_availability_check services (rs_alias rs)
                then Message (NoService (rs_alias rs))
                else if start_datetime ec < now0 then Message BeforePresent
                else Message EndBeforeBeginning)"
    using inv by (simp add: first_standard_check_def)
  have cc: "control_conditions_and_permissions now0 now1 now2 user services ec calendar rs =
              Inr (if \<not> service_availability_check services (rs_alias rs)
                   then Message (NoService (rs_alias rs))
                   else if start_datetime ec < now0 then Message BeforePresent
                   else Message EndBeforeBeginning)"
    by (simp add: control_conditions_and_permissions_def std Let_def)
  show ?thesis
    unfolding create_event_Some cc
    by (simp split: sum.splits bool.splits)
qed

theorem inverted_request_invalid_interval_witness:
  "end_datetime request_13_12 < start_datetime request_13_12
   \<and> fst (control_collision cest no_booking request_13_12 (Some club_room)) = Inr True
   \<and> service_availability_check services_with_game (rs_alias game)
   \<and> create_event cest no_booking early_may early_may early_may member services_with_game
         request_13_12 (Some club_room) game = Inr (MessageContent EndBeforeBeginning, None)"
proof -
  have inv: "end_datetime request_13_12 < start_datetime request_13_12"
    by (simp add: request_13_12_def at_day_def)
  have free: "fst (control_collision cest no_booking request_13_12 (Some club_room)) = Inr True"
    unfolding control_collision_Some
    by (simp add: check_collision_time_def gathered_def club_room_def get_events_def no_booking_def)
  have svc: "service_availability_check services_with_game (rs_alias game)"
    by (simp add: services_with_game_def game_def)
  have later: "\<not> start_datetime request_13_12 < early_may"
    by (simp add: request_13_12_def early_may_def at_day_def)
  show ?thesis
    using inverted_request_invalid_interval
            [OF inv, of cest no_booking early_may early_may early_may member services_with_game
               club_room game]
          inv free svc later
    by simp
qed

text \<open>
  Claim C5, as stated, fails: a request for more guests than \<^verbatim>\<open>max_people\<close>, on a
  calendar that does not allow more with permission, is refused with the message of the
  missing service, not with the message about the number of people, when the user does
  not have the service.
\<close>

theorem over_capacity_other_refusal:
  "max_people club_room < guests request_10_guests
   \<and> \<not> more_than_max_people_with_permission club_room
   \<and> create_event cest no_booking early_may early_may early_may member []
         request_10_guests (Some club_room) game = Inr (MessageContent (NoService ''game''), None)"
proof -
  have "fst (control_collision cest no_booking request_10_guests (Some club_room)) = Inr True"
    unfolding control_collision_Some
    by (simp add: check_collision_time_def gathered_def club_room_def get_events_def no_booking_def)
  moreover
  have "control_conditions_and_permissions early_may early_may early_may member []
          request_10_guests club_room game = Inr (Message (NoService ''game''))"
    by (simp add: control_conditions_and_permissions_def first_standard_check_def game_def)
  ultimately show ?thesis
    by (simp add: create_event_Some request_10_guests_def club_room_def)
qed

text \<open>
  Claim C5, amended. A request for more guests than \<^verbatim>\<open>max_people\<close> is never
  confirmed: the only event that \<^verbatim>\<open>create_event\<close> writes for it is a not approved one,
  with the answer that there are more people than \<^verbatim>\<open>max_people\<close>. When the collision
  check reports the time free and the first standard check passes, a calendar that does
  not allow more people with permission refuses the request with the message about the
  number of people and writes nothing. When the calendar allows more people with
  permission, the time is free and all checks of the request pass, the event is written
  as not approved.
\<close>

theorem over_capacity_never_confirmed:
  assumes over: "max_people calendar < guests ec"
  shows "(\<forall>r st. create_event tz svc now0 now1 now2 user services ec (Some calendar) rs
                    = Inr (r, Some st)
                  \<longrightarrow> r = MoreThanMaxPeople (max_people calendar) \<and> st = NOT_APPROVED)
         \<and> (\<not> more_than_max_people_with_permission calendar
              \<and> fst (control_collision tz svc ec (Some calendar)) = Inr True
              \<and> first_standard_check now0 services rs (start_datetime ec) (end_datetime ec) = Access
              \<longrightarrow> create_event tz svc now0 now1 now2 user services ec (Some calendar) rs =
                    Inr (MessageContent (MoreThanPeople (max_people calendar)), None))
         \<and> (more_than_max_people_with_permission calendar
              \<and> fst (control_collision tz svc ec (Some calendar)) = Inr True
              \<and> control_conditions_and_permissions now0 now1 now2 user services ec calendar rs
                  = Inr Access
              \<longrightarrow> create_event tz svc now0 now1 now2 user services ec (Some calendar) rs =
                    Inr (MoreThanMaxPeople (max_people calendar), Some NOT_APPROVED))"
proof (intro conjI)
  show "\<forall>r st. create_event tz svc now0 now1 now2 user services ec (Some calendar) rs
                  = Inr (r, Some st)
                \<longrightarrow> r = MoreThanMaxPeople (max_people calendar) \<and> st = NOT_APPROVED"
  proof (intro allI impI)
    fix r st
    assume c: "create_event tz svc now0 now1 now2 user services ec (Some calendar) rs
                 = Inr (r, Some st)"
    show "r = MoreThanMaxPeople (max_people calendar) \<and> st = NOT_APPROVED"
    proof (cases "fst (control_collision tz svc ec (Some calendar))")
      case (Inl e)
      with c show ?thesis by (simp add: create_event_Some)
    next
      case (Inr free)
      show ?thesis
      proof (cases free)
        case False
        with Inr c show ?thesis by (simp add: create_event_Some)
      next
        case True
        show ?thesis
        proof (cases "control_conditions_and_permissions now0 now1 now2 user services ec
                        calendar rs")
          case (Inl e)
          with Inr True c show ?thesis by (simp add: create_event_Some)
        next
          case ccr: (Inr res)
          show ?thesis
          proof (cases res)
            case Access
            with ccr Inr True c over show ?thesis by (simp add: create_event_Some)
          next
            case (Message m)
            with ccr Inr True c show ?thesis by (simp add: create_event_Some)
          qed
        qed
      qed
    qed
  qed
next
  show "\<not> more_than_max_people_with_permission calendar
        \<and> fst (control_collision tz svc ec (Some calendar)) = Inr True
        \<and> first_standard_check now0 services rs (start_datetime ec) (end_datetime ec) = Access
        \<longrightarrow> create_event tz svc now0 now1 now2 user services ec (Some calendar) rs =
              Inr (MessageContent (MoreThanPeople (max_people calendar)), None)"
  proof
  assume a: "\<not> more_than_max_people_with_permission calendar
             \<and> fst (control_collision tz svc ec (Some calendar)) = Inr True
             \<and> first_standard_check now0 services rs (start_datetime ec) (end_datetime ec) = Access"
  then have "control_conditions_and_permissions now0 now1 now2 user services ec calendar rs =
               Inr (Message (MoreThanPeople (max_people calendar)))"
    using over by (simp add: control_conditions_and_permissions_def Let_def)
  with a show "create_event tz svc now0 now1 now2 user services ec (Some calendar) rs =
                 Inr (MessageContent (MoreThanPeople (max_people calendar)), None)"
    unfolding create_event_Some by simp
  qed
next
  show "more_than_max_people_with_permission calendar
        \<and> fst (control_collision tz svc ec (Some calendar)) = Inr True
        \<and> control_conditions_and_permissions now0 now1 now2 user services ec calendar rs
            = Inr Access
        \<longrightarrow> create_event tz svc now0 now1 now2 user services ec (Some calendar) rs =
              Inr (MoreThanMaxPeople (max_people calendar), Some NOT_APPROVED)"
    using over unfolding create_event_Some by simp
qed

theorem over_capacity_never_confirmed_witness:
  "max_people club_room < guests request_10_guests
   \<and> create_event cest no_booking early_may early_may early_may member services_with_game
         request_10_guests (Some club_room) game = Inr (MessageContent (MoreThanPeople 8), None)
   \<and> create_event cest no_booking early_may early_may early_may member services_with_game
         request_10_guests (Some (club_room\<lparr>more_than_max_people_with_permission := True\<rparr>)) game
       = Inr (MoreThanMaxPeople 8, Some NOT_APPROVED)"
proof -
  let ?open_room = "club_room\<lparr>more_than_max_people_with_permission := True\<rparr>"
  have over: "max_people club_room < guests request_10_guests"
    by (simp add: club_room_def request_10_guests_def)
  have over': "max_people ?open_room < guests request_10_guests"
    by (simp add: club_room_def request_10_guests_def)
  have mp: "max_people club_room = 8" and mp': "max_people ?open_room = 8"
    by (simp_all add: club_room_def)
  have free: "fst (control_collision cest no_booking request_10_guests (Some club_room)) = Inr True"
    unfolding control_collision_Some
    by (simp add: check_collision_time_def gathered_def club_room_def get_events_def no_booking_def)
  have free': "fst (control_collision cest no_booking request_10_guests (Some ?open_room)) = Inr True"
    unfolding control_collision_Some
    by (simp add: check_collision_time_def gathered_def club_room_def get_events_def no_booking_def)
  have std: "first_standard_check early_may services_with_game game
               (start_datetime request_10_guests) (end_datetime request_10_guests) = Access"
    by (simp add: first_standard_check_def services_with_game_def game_def request_10_guests_def
          early_may_def at_day_def)
  have closed: "\<not> more_than_max_people_with_permission club_room"
    by (simp add: club_room_def)
  have opened: "more_than_max_people_with_permission ?open_room"
    by simp
  have rules: "choose_user_rules member ?open_room game = Inr rules_schema"
    by (simp add: choose_user_rules_def member_def club_room_def game_def)
  have dur: "dif_days_res (start_datetime request_10_guests) (end_datetime request_10_guests)
               rules_schema = Inr True"
    by (simp add: dif_days_res_def timedelta_def rules_schema_def request_10_guests_def
          at_day_def Let_def)
  have adv: "reservation_in_advance early_may early_may (start_datetime request_10_guests)
               rules_schema = Inr Access"
    by (simp add: reservation_in_advance_def control_res_in_advance_or_prior_def timedelta_def
          rules_schema_def request_10_guests_def early_may_def at_day_def Let_def)
  have pass: "control_conditions_and_permissions early_may early_may early_may member
                services_with_game request_10_guests ?open_room game = Inr Access"
    by (simp add: control_conditions_and_permissions_def std rules dur adv Let_def)
  note refused =
    over_capacity_never_confirmed
      [OF over, of cest no_booking early_may early_may early_may member services_with_game game,
       THEN conjunct2, THEN conjunct1]
  note flagged =
    over_capacity_never_confirmed
      [OF over', of cest no_booking early_may early_may early_may member services_with_game game,
       THEN conjunct2, THEN conjunct2]
  have "create_event cest no_booking early_may early_may early_may member services_with_game
          request_10_guests (Some club_room) game = Inr (MessageContent (MoreThanPeople 8), None)"
    using refused closed free std unfolding mp by blast
  moreover
  have "create_event cest no_booking early_may early_may early_may member services_with_game
          request_10_guests (Some ?open_room) game = Inr (MoreThanMaxPeople 8, Some NOT_APPROVED)"
    using flagged opened free' pass unfolding mp' by blast
  ultimately show ?thesis using over by blast
qed

text \<open>
  Claim C7. \<^verbatim>\<open>control_collision\<close> changes the calendar it is given: after the call the
  calendar's collision list holds the calendar's own identifier. A second call with the
  calendar as the first call left it gathers the calendar's events twice and answers
  differently from the first: the back-to-back booking, free at the first call, is a
  conflict at the second.
\<close>

theorem control_collision_changes_calendar:
  "collision_with_calendar club_room = []
   \<and> snd (control_collision cest one_booking request_12_13 (Some club_room)) =
       Some (club_room\<lparr>collision_with_calendar := [''club_room'']\<rparr>)
   \<and> snd (control_collision cest one_booking request_12_13 (Some club_room)) \<noteq> Some club_room
   \<and> fst (control_collision cest one_booking request_12_13 (Some club_room)) = Inr True
   \<and> fst (control_collision cest one_booking request_12_13
            (snd (control_collision cest one_booking request_12_13 (Some club_room)))) = Inr False"
proof -
  have after: "snd (control_collision cest one_booking request_12_13 (Some club_room)) =
                 Some (club_room\<lparr>collision_with_calendar := [''club_room'']\<rparr>)"
    unfolding control_collision_Some by (simp add: club_room_def)
  have first: "fst (control_collision cest one_booking request_12_13 (Some club_room)) = Inr True"
    unfolding control_collision_Some
    by (simp add: check_collision_time_def gathered_def club_room_def get_events_def one_booking_def
          booking_10_12_def cest_def request_12_13_def at_day_def)
  have second: "fst (control_collision cest one_booking request_12_13
                       (Some (club_room\<lparr>collision_with_calendar := [''club_room'']\<rparr>))) = Inr False"
    unfolding control_collision_Some
    by (simp add: check_collision_time_many gathered_def club_room_def get_events_def one_booking_def)
  have changed: "club_room\<lparr>collision_with_calendar := [''club_room'']\<rparr> \<noteq> club_room"
    by (simp add: club_room_def)
  show ?thesis
    using after first second changed by (simp add: club_room_def)
qed

end
